theory Spec2Isabelle
  imports Main "HOL-Library.Sublist" "HOL-Library.Char_ord" "HOL-Library.List_Lexorder"
begin

section \<open>Python strings and paths\<close>

text \<open>
  Strings are character lists; \<open>sorted\<close> on strings is the lexicographic order of
  \<^theory_text>\<open>List_Lexorder\<close> over the character order of \<^theory_text>\<open>Char_ord\<close>.
\<close>

text \<open>\<open>sub in s\<close> on strings: \<open>sub\<close> occurs in \<open>s\<close> as a contiguous piece.\<close>

fun str_contains :: "string \<Rightarrow> string \<Rightarrow> bool" where
  "str_contains sub [] = (sub = [])"
| "str_contains sub (c # cs) = (prefix sub (c # cs) \<or> str_contains sub cs)"

text \<open>
  \<open>s.replace(old, new)\<close> for a non-empty \<open>old\<close>: one scan from the left; at each
  position where \<open>old\<close> starts it is replaced and the scan goes on behind it.
\<close>

function str_replace :: "string \<Rightarrow> string \<Rightarrow> string \<Rightarrow> string" where
  "str_replace old new [] = []"
| "str_replace old new (c # cs) =
     (if old \<noteq> [] \<and> prefix old (c # cs)
      then new @ str_replace old new (drop (length old) (c # cs))
      else c # str_replace old new cs)"
  by pat_completeness auto
termination
  by (relation "measure (\<lambda>(old, new, s). length s)") (auto simp: prefix_def)

text \<open>With an empty \<open>old\<close>, Python puts \<open>new\<close> before every character and at the end.\<close>

definition py_replace :: "string \<Rightarrow> string \<Rightarrow> string \<Rightarrow> string" where
  "py_replace old new s =
     (if old = [] then new @ concat (map (\<lambda>c. c # new) s) else str_replace old new s)"

text \<open>\<open>os.path.join\<close> of posixpath, one step and the fold over the further components.\<close>

definition join2 :: "string \<Rightarrow> string \<Rightarrow> string" where
  "join2 path b =
     (if prefix ''/'' b then b
      else if path = [] \<or> last path = CHR ''/'' then path @ b
      else path @ ''/'' @ b)"

definition path_join :: "string \<Rightarrow> string list \<Rightarrow> string" where
  "path_join a p = foldl join2 a p"

section \<open>Data model\<close>

text \<open>An entry of \<open>repository-map.yml\<close>: the fields the scripts read.\<close>

record package_entry =
  pkg_url :: string
  current_version_tag :: string

text \<open>
  The repository map is the dictionary \<open>yaml.safe_load\<close> returns, in insertion order;
  its keys are pairwise different.
\<close>

type_synonym repo_map = "(string \<times> package_entry) list"

definition dict_keys :: "repo_map \<Rightarrow> string list" where
  "dict_keys data = map fst data"

text \<open>YAML values as far as \<open>crowdin.yml\<close> needs them.\<close>

datatype yaml = YStr string | YSeq "yaml list" | YMap "(string \<times> yaml) list"

text \<open>
  The top level of \<open>crowdin.yml\<close> is a dictionary from section names to values.
  \<open>yaml.safe_dump\<close> writes a dictionary with its keys sorted, so the file is fixed by
  the mapping alone.
\<close>

type_synonym crowdin = "string \<rightharpoonup> yaml"

datatype error =
    FileNotFound string
  | KeyError string

section \<open>The translation-config synchronizer\<close>

definition root_entry :: yaml where
  "root_entry = YMap
     [(''source'', YStr ''/napari/locale/napari.pot''),
      (''translation'',
         YStr ''/napari/locale/%locale_with_underscore%/LC_MESSAGES/%file_name%.po'')]"

definition plugin_entry :: "string \<Rightarrow> yaml" where
  "plugin_entry pkg_name =
     (let pkg_name_norm = py_replace ''-'' ''_'' pkg_name in
      YMap
        [(''source'',
            YStr (''/plugins/'' @ pkg_name_norm @ ''/locale/'' @ pkg_name_norm @ ''.pot'')),
         (''translation'',
            YStr (''/plugins/'' @ pkg_name_norm @ ''/locale''
                  @ ''/%locale_with_underscore%/LC_MESSAGES/%file_name%.po''))])"

text \<open>The loop of \<open>update_crowdin_config\<close> over \<open>sorted(data)\<close>, appending to \<open>packages\<close>.\<close>

definition packages_step :: "yaml list \<Rightarrow> string \<Rightarrow> yaml list" where
  "packages_step packages pkg_name =
     (if pkg_name \<noteq> ''napari'' then packages @ [plugin_entry pkg_name] else packages)"

definition file_list :: "repo_map \<Rightarrow> yaml list" where
  "file_list data = foldl packages_step [root_entry] (sort (dict_keys data))"

section \<open>The world the scripts act on\<close>

text \<open>A directory tree: the sub-directories of a directory, by name, in scan order.\<close>

datatype dnode = Dnode "(string \<times> dnode) list"

text \<open>
  The file system as far as the scripts see it: the two YAML files under the repository
  root by their parsed content (\<open>None\<close>: the file cannot be opened), the directories
  by path with the tree below each, and the text files by path.
\<close>

record fsys =
  repo_map_file :: "repo_map option"
  crowdin_file :: "crowdin option"
  dir_tree :: "string \<rightharpoonup> dnode"
  texts :: "string \<rightharpoonup> string"

text \<open>
  The world: the file system, the sub-processes started so far (arguments and working
  directory) and what was echoed (colour and text).
\<close>

record world =
  fs :: fsys
  procs :: "(string list \<times> string) list"
  echoed :: "(string \<times> string) list"

text \<open>
  What lies outside the scripts: the repository root (\<open>REPO_ROOT\<close>), what a
  sub-process does to the file system given its arguments and working directory, and
  the rounded run time as the final notice prints it.
\<close>

record env =
  repo_root :: string
  tool :: "string list \<Rightarrow> string \<Rightarrow> fsys \<Rightarrow> fsys"
  delta :: string

definition REPOSITORIES_FOLDER :: string where
  "REPOSITORIES_FOLDER = ''repos''"

definition REPO_MAP_FILE :: string where
  "REPO_MAP_FILE = ''repository-map.yml''"

definition CROWDIN_FILE :: string where
  "CROWDIN_FILE = ''crowdin.yml''"

definition load_repo_map :: "env \<Rightarrow> world \<Rightarrow> error + repo_map" where
  "load_repo_map e w =
     (case repo_map_file (fs w) of
        None \<Rightarrow> Inl (FileNotFound (path_join (repo_root e) [REPO_MAP_FILE]))
      | Some data \<Rightarrow> Inr data)"

definition load_crowdin :: "env \<Rightarrow> world \<Rightarrow> error + crowdin" where
  "load_crowdin e w =
     (case crowdin_file (fs w) of
        None \<Rightarrow> Inl (FileNotFound (path_join (repo_root e) [CROWDIN_FILE]))
      | Some data \<Rightarrow> Inr data)"

definition save_crowdin :: "crowdin \<Rightarrow> world \<Rightarrow> world" where
  "save_crowdin data w = w\<lparr>fs := (fs w)\<lparr>crowdin_file := Some data\<rparr>\<rparr>"

definition update_crowdin_config :: "env \<Rightarrow> world \<Rightarrow> error + world" where
  "update_crowdin_config e w =
     (case load_repo_map e w of
        Inl err \<Rightarrow> Inl err
      | Inr data \<Rightarrow>
          (case load_crowdin e w of
             Inl err \<Rightarrow> Inl err
           | Inr crowdin_data \<Rightarrow>
               (case crowdin_data ''files'' of
                  None \<Rightarrow> Inl (KeyError ''files'')
                | Some files \<Rightarrow>
                    Inr (save_crowdin (crowdin_data(''files'' \<mapsto> YSeq (file_list data))) w))))"

section \<open>The mirror updater\<close>

text \<open>
  A step that can raise after earlier steps have already changed the world returns the
  error together with the world reached.
\<close>

type_synonym outcome = "(error \<times> world) + world"

text \<open>
  \<open>subprocess.Popen(args, cwd=cwd)\<close> followed by \<open>communicate()\<close>: raises when the
  working directory does not exist; otherwise the process runs, and its exit status is
  not looked at.
\<close>

definition popen :: "env \<Rightarrow> string list \<Rightarrow> string \<Rightarrow> world \<Rightarrow> outcome" where
  "popen e args cwd w =
     (case dir_tree (fs w) cwd of
        None \<Rightarrow> Inl (FileNotFound cwd, w)
      | Some t \<Rightarrow> Inr (w\<lparr>fs := tool e args cwd (fs w), procs := procs w @ [(args, cwd)]\<rparr>))"

definition isdir :: "world \<Rightarrow> string \<Rightarrow> bool" where
  "isdir w path = (dir_tree (fs w) path \<noteq> None)"

definition update_repo :: "env \<Rightarrow> string \<Rightarrow> string \<Rightarrow> string \<Rightarrow> world \<Rightarrow> outcome" where
  "update_repo e package_name url version w =
     (let repos_path = path_join (repo_root e) [REPOSITORIES_FOLDER];
          clone_path = path_join repos_path [package_name];
          r = (if \<not> isdir w clone_path
               then popen e [''git'', ''clone'', url @ ''.git'', package_name] repos_path w
               else popen e [''git'', ''fetch'', ''origin''] repos_path w)
      in case r of
           Inl err \<Rightarrow> Inl err
         | Inr w1 \<Rightarrow> popen e [''git'', ''checkout'', version] clone_path w1)"

section \<open>The catalog extractor\<close>

text \<open>
  \<open>os.walk(root, topdown=False)\<close> yields the sub-trees first and the directory itself
  last; \<open>_get_all_dirs\<close> collects the joined names of each yielded directory.
\<close>

fun walk_dirs :: "string \<Rightarrow> dnode \<Rightarrow> string list" where
  "walk_dirs root (Dnode subs) =
     concat (map (\<lambda>(name, sub). walk_dirs (path_join root [name]) sub) subs)
     @ map (\<lambda>(name, sub). path_join root [name]) subs"

definition get_all_dirs :: "world \<Rightarrow> string \<Rightarrow> string list" where
  "get_all_dirs w root =
     (case dir_tree (fs w) root of None \<Rightarrow> [] | Some t \<Rightarrow> walk_dirs root t)"

definition catalog_output :: "env \<Rightarrow> string \<Rightarrow> string" where
  "catalog_output e package_name =
     (if package_name = ''napari''
      then path_join (repo_root e) [package_name, ''locale'', package_name @ ''.pot'']
      else path_join (repo_root e)
             [''plugins'', package_name, ''locale'', package_name @ ''.pot''])"

definition read_text :: "world \<Rightarrow> string \<Rightarrow> error + string" where
  "read_text w path =
     (case texts (fs w) path of None \<Rightarrow> Inl (FileNotFound path) | Some data \<Rightarrow> Inr data)"

definition write_text :: "string \<Rightarrow> string \<Rightarrow> world \<Rightarrow> world" where
  "write_text path data w = w\<lparr>fs := (fs w)\<lparr>texts := (texts (fs w))(path \<mapsto> data)\<rparr>\<rparr>"

definition mirror_dir :: "env \<Rightarrow> string \<Rightarrow> string" where
  "mirror_dir e package_name = path_join (repo_root e) [REPOSITORIES_FOLDER, package_name]"

definition extract_args :: "env \<Rightarrow> world \<Rightarrow> string \<Rightarrow> string list" where
  "extract_args e w package_name =
     (let keywords = [''-k'', ''_:1'', ''-k'', ''_p:1c,2'', ''-k'', ''_n:1,2'',
                      ''-k'', ''_np:1c,2,3''];
          folders = get_all_dirs w (mirror_dir e package_name)
      in [''pybabel'', ''extract''] @ folders
         @ [''-o'', catalog_output e package_name, ''--no-default-keywords'', ''-w'', ''100000'']
         @ keywords)"

definition update_catalog :: "env \<Rightarrow> string \<Rightarrow> string \<Rightarrow> world \<Rightarrow> outcome" where
  "update_catalog e package_name version w =
     (let package_repo_dir = mirror_dir e package_name;
          output = catalog_output e package_name
      in case popen e (extract_args e w package_name) (repo_root e) w of
           Inl err \<Rightarrow> Inl err
         | Inr w1 \<Rightarrow>
             (case read_text w1 output of
                Inl err \<Rightarrow> Inl (err, w1)
              | Inr data \<Rightarrow>
                  Inr (write_text output (py_replace (package_repo_dir @ ''/'') [] data) w1)))"

section \<open>The run orchestrator\<close>

text \<open>How the run ends: an uncaught exception, \<open>sys.exit\<close>, or the end of the script.\<close>

datatype status = Raised error | SysExit nat | Done

definition exit_code :: "status \<Rightarrow> nat" where
  "exit_code st = (case st of Raised err \<Rightarrow> 1 | SysExit n \<Rightarrow> n | Done \<Rightarrow> 0)"

definition echo :: "string \<Rightarrow> string \<Rightarrow> world \<Rightarrow> world" where
  "echo fg msg w = w\<lparr>echoed := echoed w @ [(fg, msg)]\<rparr>"

text \<open>The body of the loop over \<open>packages\<close>, and the loop.\<close>

definition updating_notice :: "string \<Rightarrow> string" where
  "updating_notice package_name =
     [CHR 10, CHR 10] @ ''Updating catalog for '' @ [CHR 0x22] @ package_name @ [CHR 0x22]
     @ [CHR 10, CHR 10]"

definition process_package :: "env \<Rightarrow> repo_map \<Rightarrow> string \<Rightarrow> world \<Rightarrow> outcome" where
  "process_package e data package_name w =
     (let w0 = echo ''cyan'' (updating_notice package_name) w
      in case map_of data package_name of
           None \<Rightarrow> Inl (KeyError package_name, w0)
         | Some entry \<Rightarrow>
             (let url = pkg_url entry; version = current_version_tag entry
              in case update_repo e package_name url version w0 of
                   Inl err \<Rightarrow> Inl err
                 | Inr w1 \<Rightarrow> update_catalog e package_name version w1))"

fun process_packages :: "env \<Rightarrow> repo_map \<Rightarrow> string list \<Rightarrow> world \<Rightarrow> outcome" where
  "process_packages e data [] w = Inr w"
| "process_packages e data (package_name # rest) w =
     (case process_package e data package_name w of
        Inl err \<Rightarrow> Inl err
      | Inr w1 \<Rightarrow> process_packages e data rest w1)"

definition finish :: "env \<Rightarrow> world \<Rightarrow> world" where
  "finish e w =
     echo ''green''
       ([CHR 10, CHR 10, CHR 10] @ ''Catalogs updated in '' @ delta e @ '' seconds'' @ [CHR 10]) w"

text \<open>
  The script body under \<open>__main__\<close>; \<open>args\<close> is \<open>sys.argv[1:]\<close>. The repository map
  is loaded and the configuration synchronized before the number of arguments is
  looked at.
\<close>

definition select_packages :: "repo_map \<Rightarrow> string list \<Rightarrow> string list option" where
  "select_packages data args =
     (if length args = 1
      then (if hd args \<in> set (dict_keys data) then Some [hd args] else Some [])
      else if length args = 0 then Some (sort (dict_keys data))
      else None)"

definition main :: "env \<Rightarrow> string list \<Rightarrow> world \<Rightarrow> status \<times> world" where
  "main e args w =
     (case load_repo_map e w of
        Inl err \<Rightarrow> (Raised err, w)
      | Inr data \<Rightarrow>
          (case update_crowdin_config e w of
             Inl err \<Rightarrow> (Raised err, w)
           | Inr w1 \<Rightarrow>
               (case select_packages data args of
                  None \<Rightarrow> (SysExit 0, w1)
                | Some packages \<Rightarrow>
                    (case process_packages e data packages w1 of
                       Inl (err, w2) \<Rightarrow> (Raised err, w2)
                     | Inr w2 \<Rightarrow> (Done, finish e w2)))))"

section \<open>The locale-validation hook\<close>

text \<open>
  What the hook reads of a parsed \<open>babel.Locale\<close>: the language and the territory,
  which is \<open>None\<close> for a locale without one.
\<close>

record babel_locale =
  language :: string
  territory :: "string option"

definition invalid_msg :: "string \<Rightarrow> string" where
  "invalid_msg locale = ''ERROR: Locale '' @ [CHR 0x22] @ locale @ [CHR 0x22] @ '' is invalid!''"

text \<open>
  The \<open>try\<close> block: \<open>Locale.parse\<close> is the library's parser, \<open>None\<close> where it raises.
  Concatenating a \<open>None\<close> territory raises too, and every exception of the block ends
  in the same message. The result is the message to print, if any.
\<close>

definition check_parsed :: "(string \<Rightarrow> babel_locale option) \<Rightarrow> string \<Rightarrow> string \<Rightarrow> string option" where
  "check_parsed locale_parse locale locale_underscore =
     (case locale_parse locale_underscore of
        None \<Rightarrow> Some (invalid_msg locale)
      | Some babel_locale \<Rightarrow>
          (case territory babel_locale of
             None \<Rightarrow> Some (invalid_msg locale)
           | Some terr \<Rightarrow>
               (let parsed_locale = language babel_locale @ ''_'' @ terr
                in if parsed_locale \<noteq> locale_underscore
                   then Some (invalid_msg locale) else None)))"

text \<open>The hook: what it prints and the exit status of the process.\<close>

definition pre_gen_project ::
  "(string \<Rightarrow> babel_locale option) \<Rightarrow> string \<Rightarrow> string \<Rightarrow> string list \<times> nat" where
  "pre_gen_project locale_parse locale locale_underscore =
     (if \<not> str_contains ''-'' locale then
        ([''ERROR: `locale` must be 4 letter code, like es-ES.'' @ [CHR 10]
          @ ''       See http://www.lingoes.net/en/translator/langcode.htm''], 1)
      else
        (case check_parsed locale_parse locale locale_underscore of
           Some msg \<Rightarrow> ([msg], 1)
         | None \<Rightarrow>
             if str_contains ''_'' locale then
               ([''ERROR: Locales with language variants must use `-` and not `_`''], 1)
             else if str_contains ''-'' locale_underscore then
               ([''ERROR: `locale_underscore` must use `_` and not `-`''], 1)
             else ([], 0)))"

section \<open>Example inputs\<close>

text \<open>
  A repository map with the root package and one plug-in, a configuration with an empty
  file list and one further section, and a checkout under \<open>/r\<close> in which both mirrors
  exist. They instantiate the theorems below.
\<close>

definition example_map :: repo_map where
  "example_map =
     [(''plugin-a'', \<lparr>pkg_url = ''https://example.com/plugin-a'', current_version_tag = ''main''\<rparr>),
      (''napari'', \<lparr>pkg_url = ''https://example.com/napari'', current_version_tag = ''v1.0''\<rparr>)]"

definition example_crowdin :: crowdin where
  "example_crowdin = [''files'' \<mapsto> YSeq [], ''preserve_hierarchy'' \<mapsto> YStr ''true'']"

text \<open>The text the extraction tool leaves in the catalog in the examples.\<close>

definition example_pot :: string where
  "example_pot =
     ''#: /r/repos/napari/napari/utils/misc.py:10'' @ [CHR 10]
     @ ''msgid '' @ [CHR 0x22] @ ''see /r/repos/napari'' @ [CHR 0x22] @ [CHR 10]"

fun output_arg :: "string list \<Rightarrow> string option" where
  "output_arg (a # b # rest) = (if a = ''-o'' then Some b else output_arg (b # rest))"
| "output_arg rest = None"

text \<open>
  The tools of the examples: \<open>pybabel extract\<close> writes \<open>example_pot\<close> to the file
  named after \<open>-o\<close>; \<open>git\<close> leaves the file system as it is.
\<close>

definition example_tool :: "string list \<Rightarrow> string \<Rightarrow> fsys \<Rightarrow> fsys" where
  "example_tool args cwd f =
     (if take 2 args = [''pybabel'', ''extract'']
      then (case output_arg args of
              None \<Rightarrow> f
            | Some out \<Rightarrow> f\<lparr>texts := (texts f)(out \<mapsto> example_pot)\<rparr>)
      else f)"

definition example_env :: env where
  "example_env = \<lparr>repo_root = ''/r'', tool = example_tool, delta = ''3.0''\<rparr>"

definition example_dirs :: "string \<rightharpoonup> dnode" where
  "example_dirs =
     [''/r'' \<mapsto> Dnode [(''repos'', Dnode [(''napari'', Dnode [(''napari'', Dnode [])]),
                                            (''plugin-a'', Dnode [])])],
      ''/r/repos'' \<mapsto> Dnode [(''napari'', Dnode [(''napari'', Dnode [])]),
                             (''plugin-a'', Dnode [])],
      ''/r/repos/napari'' \<mapsto> Dnode [(''napari'', Dnode [])],
      ''/r/repos/napari/napari'' \<mapsto> Dnode [],
      ''/r/repos/plugin-a'' \<mapsto> Dnode []]"

definition example_world :: world where
  "example_world =
     \<lparr>fs = \<lparr>repo_map_file = Some example_map, crowdin_file = Some example_crowdin,
             dir_tree = example_dirs, texts = Map.empty\<rparr>,
      procs = [], echoed = []\<rparr>"

text \<open>
  Two observations of the world: the file-list section of the configuration on disk,
  and the text of a package's catalog after the extractor has finished.
\<close>

definition catalog_after :: "env \<Rightarrow> string \<Rightarrow> outcome \<Rightarrow> string option" where
  "catalog_after e package_name r =
     (case r of
        Inl raised \<Rightarrow> None
      | Inr w \<Rightarrow> texts (fs w) (catalog_output e package_name))"


definition files_section :: "world \<Rightarrow> yaml option" where
  "files_section w = (case crowdin_file (fs w) of None \<Rightarrow> None | Some c \<Rightarrow> c ''files'')"

text \<open>An instance of the locale parser for the examples: it knows two locales.\<close>

definition example_locale_parse :: "string \<Rightarrow> babel_locale option" where
  "example_locale_parse identifier =
     (if identifier = ''es_ES'' \<or> identifier = ''fr_FR''
      then Some \<lparr>language = take 2 identifier, territory = Some (drop 3 identifier)\<rparr>
      else None)"

section \<open>Facts about the string functions\<close>

lemma str_replace_no_occurrence:
  "\<not> str_contains old s \<Longrightarrow> str_replace old new s = s"
  by (induction old new s rule: str_replace.induct) auto

lemma str_replace_at_prefix:
  "old \<noteq> [] \<Longrightarrow> str_replace old new (old @ rest) = new @ str_replace old new rest"
  by (cases old) simp_all

lemma prefix_longer:
  assumes "prefix old (xs @ ys)" and "length old \<le> length xs"
  shows "prefix old xs"
  using assms by (auto simp: prefix_append)

text \<open>
  The scan replaces the first occurrence it meets: when \<open>old\<close> does not start anywhere
  before the end of \<open>s\<close>, the text \<open>s @ old @ rest\<close> becomes \<open>s @ new\<close> followed by
  the scan of \<open>rest\<close>.
\<close>

lemma str_replace_first_occurrence:
  assumes "old \<noteq> []" and "\<not> str_contains old (s @ butlast old)"
  shows "str_replace old new (s @ old @ rest) = s @ new @ str_replace old new rest"
  using assms(2)
proof (induction s)
  case Nil
  show ?case using assms(1) by (simp add: str_replace_at_prefix)
next
  case (Cons c s)
  have no_prefix: "\<not> prefix old (c # s @ butlast old)"
    and rest_free: "\<not> str_contains old (s @ butlast old)"
    using Cons.prems by auto
  have split: "c # s @ old @ rest = (c # s @ butlast old) @ (last old # rest)"
    using assms(1) by (metis append_Cons append_assoc append_butlast_last_id append_Nil)
  have "length old \<le> length (c # s @ butlast old)"
    by simp
  then have "\<not> prefix old (c # s @ old @ rest)"
    using no_prefix prefix_longer unfolding split by blast
  then show ?case
    using Cons.IH [OF rest_free] by simp
qed

lemma str_replace_segments:
  assumes "old \<noteq> []"
    and "\<forall>s\<in>set segs. \<not> str_contains old (s @ butlast old)"
    and "\<not> str_contains old rest"
  shows "str_replace old [] (concat (map (\<lambda>s. s @ old) segs) @ rest) = concat segs @ rest"
  using assms(2)
proof (induction segs)
  case Nil
  show ?case using assms(3) by (simp add: str_replace_no_occurrence)
next
  case (Cons s segs)
  then have "\<not> str_contains old (s @ butlast old)" by simp
  from str_replace_first_occurrence [OF assms(1) this, of "[]"] Cons
  show ?case by simp
qed

lemmas example_simps =
  example_env_def example_world_def example_dirs_def example_tool_def example_pot_def
  path_join_def join2_def REPOSITORIES_FOLDER_def mirror_dir_def catalog_output_def
  extract_args_def get_all_dirs_def

section \<open>The synchronizer's file list\<close>

lemma foldl_packages_step:
  "foldl packages_step acc names
   = acc @ map plugin_entry (filter (\<lambda>n. n \<noteq> ''napari'') names)"
  by (induction names arbitrary: acc) (simp_all add: packages_step_def)

lemma file_list_eq:
  "file_list data
   = root_entry # map plugin_entry (sort (filter (\<lambda>n. n \<noteq> ''napari'') (dict_keys data)))"
  by (simp add: file_list_def foldl_packages_step filter_sort)

lemma length_filter_other:
  assumes "distinct names"
  shows "length (filter (\<lambda>n. n \<noteq> k) names)
         = (if k \<in> set names then length names - 1 else length names)"
  using assms
proof (induction names)
  case Nil
  then show ?case by simp
next
  case (Cons a names)
  then show ?case by (cases names) auto
qed

text \<open>
  Claim C1, as the code has it. For every repository map (a dictionary, so its keys are
  pairwise different) the file list starts with the root package's entry, followed by
  one entry per package other than \<open>napari\<close> in lexicographic order of package name.
  Its length is the number of packages when the map contains the root package
  \<open>napari\<close>, and one more than that when it does not: the root entry is written
  whether or not the map names the root package.
\<close>

theorem file_list_root_first_then_sorted:
  assumes "distinct (dict_keys data)"
  shows "hd (file_list data) = root_entry
       \<and> tl (file_list data)
           = map plugin_entry (sort (filter (\<lambda>n. n \<noteq> ''napari'') (dict_keys data)))
       \<and> length (file_list data)
           = (if ''napari'' \<in> set (dict_keys data) then length data else length data + 1)"
proof -
  have len: "length (dict_keys data) = length data"
    by (simp add: dict_keys_def)
  have "''napari'' \<in> set (dict_keys data) \<Longrightarrow> 0 < length (dict_keys data)"
    by (cases "dict_keys data") auto
  then show ?thesis
    using length_filter_other [OF assms, of "''napari''"] len
    by (auto simp: file_list_eq)
qed

theorem file_list_root_first_then_sorted_witness:
  "distinct (dict_keys example_map)
   \<and> hd (file_list example_map) = root_entry
   \<and> tl (file_list example_map) = [plugin_entry ''plugin-a'']
   \<and> length (file_list example_map) = 2"
  using file_list_root_first_then_sorted [of example_map]
  by (simp add: example_map_def dict_keys_def)

text \<open>
  Claim C1 as stated fails on a map without the root package: a map with the single
  package \<open>plugin-a\<close> gets a file list of two entries.
\<close>

theorem file_list_length_counterexample:
  "length (file_list
     [(''plugin-a'',
       \<lparr>pkg_url = ''https://example.com/plugin-a'', current_version_tag = ''main''\<rparr>)])
   \<noteq> length
     [(''plugin-a'',
       \<lparr>pkg_url = ''https://example.com/plugin-a'', current_version_tag = ''main''\<rparr>)]"
  by (simp add: file_list_def dict_keys_def packages_step_def)

section \<open>The synchronizer on the configuration file\<close>

lemma update_crowdin_config_ok:
  assumes "repo_map_file (fs w) = Some data" and "crowdin_file (fs w) = Some c"
    and "c ''files'' = Some old"
  shows "update_crowdin_config e w
         = Inr (save_crowdin (c(''files'' \<mapsto> YSeq (file_list data))) w)"
  using assms by (simp add: update_crowdin_config_def load_repo_map_def load_crowdin_def)

lemma update_crowdin_config_Inr:
  assumes "update_crowdin_config e w = Inr w1"
  shows "\<exists>data c old. repo_map_file (fs w) = Some data \<and> crowdin_file (fs w) = Some c
           \<and> c ''files'' = Some old
           \<and> w1 = save_crowdin (c(''files'' \<mapsto> YSeq (file_list data))) w"
  using assms
  by (auto simp: update_crowdin_config_def load_repo_map_def load_crowdin_def
           split: option.splits)

text \<open>
  Claim C7. Running the synchronizer again on the world its first run left, with the
  repository map unchanged, succeeds and leaves that world as it is: the second run
  writes the same configuration, and so the same file-list section, as the first.
\<close>

theorem update_crowdin_config_idempotent:
  assumes "update_crowdin_config e w = Inr w1"
  shows "update_crowdin_config e w1 = Inr w1"
proof -
  from update_crowdin_config_Inr [OF assms] obtain data c old where
    d: "repo_map_file (fs w) = Some data" and c: "crowdin_file (fs w) = Some c"
    and "c ''files'' = Some old"
    and w1: "w1 = save_crowdin (c(''files'' \<mapsto> YSeq (file_list data))) w"
    by blast
  let ?c1 = "c(''files'' \<mapsto> YSeq (file_list data))"
  have "repo_map_file (fs w1) = Some data" "crowdin_file (fs w1) = Some ?c1"
    "?c1 ''files'' = Some (YSeq (file_list data))"
    using d by (simp_all add: w1 save_crowdin_def)
  from update_crowdin_config_ok [OF this]
  have "update_crowdin_config e w1
        = Inr (save_crowdin (?c1(''files'' \<mapsto> YSeq (file_list data))) w1)" .
  also have "save_crowdin (?c1(''files'' \<mapsto> YSeq (file_list data))) w1 = w1"
    by (simp add: w1 save_crowdin_def)
  finally show ?thesis .
qed

theorem update_crowdin_config_idempotent_witness:
  "update_crowdin_config example_env example_world
     = Inr (save_crowdin (example_crowdin(''files'' \<mapsto> YSeq (file_list example_map)))
              example_world)
   \<and> update_crowdin_config example_env
        (save_crowdin (example_crowdin(''files'' \<mapsto> YSeq (file_list example_map)))
           example_world)
     = Inr (save_crowdin (example_crowdin(''files'' \<mapsto> YSeq (file_list example_map)))
              example_world)"
proof -
  have h: "update_crowdin_config example_env example_world
     = Inr (save_crowdin (example_crowdin(''files'' \<mapsto> YSeq (file_list example_map)))
              example_world)"
    by (simp add: update_crowdin_config_def load_repo_map_def load_crowdin_def
                  example_world_def example_crowdin_def)
  show ?thesis
    using h update_crowdin_config_idempotent [OF h] by simp
qed

text \<open>
  Claim C8. When the repository map loads and the configuration has a file-list
  section, the synchronizer succeeds and writes a configuration whose file-list section
  is the new file list and whose every other section has the value it had before the
  run; nothing but the configuration file changes.
\<close>

theorem update_crowdin_config_frame:
  assumes "repo_map_file (fs w) = Some data" and "crowdin_file (fs w) = Some c"
    and "c ''files'' = Some old"
  shows "\<exists>c'. update_crowdin_config e w = Inr (save_crowdin c' w)
            \<and> c' ''files'' = Some (YSeq (file_list data))
            \<and> (\<forall>section. section \<noteq> ''files'' \<longrightarrow> c' section = c section)"
  using update_crowdin_config_ok [OF assms] by auto

theorem update_crowdin_config_frame_witness:
  "\<exists>c'. update_crowdin_config example_env example_world = Inr (save_crowdin c' example_world)
       \<and> c' ''files'' = Some (YSeq (file_list example_map))
       \<and> (\<forall>section. section \<noteq> ''files'' \<longrightarrow> c' section = example_crowdin section)"
proof -
  have "repo_map_file (fs example_world) = Some example_map"
    and "crowdin_file (fs example_world) = Some example_crowdin"
    and "example_crowdin ''files'' = Some (YSeq [])"
    by (simp_all add: example_world_def example_crowdin_def)
  from update_crowdin_config_frame [OF this] show ?thesis .
qed

text \<open>
  Claim C10. Two worlds with the same repository map whose configurations both have a
  file-list section and agree on every other section: the synchronizer succeeds on
  both, and the configuration on disk after the one run equals the configuration on
  disk after the other, namely the shared sections with the new file list. The old
  file list is read and has no influence on what is written.
\<close>

theorem update_crowdin_config_ignores_old_files:
  assumes "repo_map_file (fs w1) = Some data" and "repo_map_file (fs w2) = Some data"
    and "crowdin_file (fs w1) = Some c1" and "crowdin_file (fs w2) = Some c2"
    and "c1 ''files'' = Some old1" and "c2 ''files'' = Some old2"
    and "\<forall>section. section \<noteq> ''files'' \<longrightarrow> c1 section = c2 section"
  shows "\<exists>r1 r2. update_crowdin_config e w1 = Inr r1
            \<and> update_crowdin_config e w2 = Inr r2
            \<and> crowdin_file (fs r1) = crowdin_file (fs r2)
            \<and> crowdin_file (fs r1) = Some (c1(''files'' \<mapsto> YSeq (file_list data)))"
proof -
  let ?new = "YSeq (file_list data)"
  let ?r1 = "save_crowdin (c1(''files'' \<mapsto> ?new)) w1"
  let ?r2 = "save_crowdin (c2(''files'' \<mapsto> ?new)) w2"
  have same: "c1(''files'' \<mapsto> ?new) = c2(''files'' \<mapsto> ?new)"
    using assms(7) by (auto simp: fun_eq_iff)
  have run1: "update_crowdin_config e w1 = Inr ?r1"
    by (rule update_crowdin_config_ok [OF assms(1,3,5)])
  have run2: "update_crowdin_config e w2 = Inr ?r2"
    by (rule update_crowdin_config_ok [OF assms(2,4,6)])
  have disk1: "crowdin_file (fs ?r1) = Some (c1(''files'' \<mapsto> ?new))"
    by (simp add: save_crowdin_def)
  have disk2: "crowdin_file (fs ?r2) = Some (c2(''files'' \<mapsto> ?new))"
    by (simp add: save_crowdin_def)
  have "crowdin_file (fs ?r1) = crowdin_file (fs ?r2)"
    using disk1 disk2 same by simp
  with run1 run2 disk1 show ?thesis by blast
qed

theorem update_crowdin_config_ignores_old_files_witness:
  "\<exists>r1 r2. update_crowdin_config example_env example_world = Inr r1
       \<and> update_crowdin_config example_env
            (save_crowdin (example_crowdin(''files'' \<mapsto> YSeq [root_entry])) example_world)
          = Inr r2
       \<and> crowdin_file (fs r1) = crowdin_file (fs r2)
       \<and> crowdin_file (fs r1)
          = Some (example_crowdin(''files'' \<mapsto> YSeq (file_list example_map)))"
proof -
  let ?w2 = "save_crowdin (example_crowdin(''files'' \<mapsto> YSeq [root_entry])) example_world"
  let ?c2 = "example_crowdin(''files'' \<mapsto> YSeq [root_entry])"
  have "repo_map_file (fs example_world) = Some example_map"
    and "repo_map_file (fs ?w2) = Some example_map"
    and "crowdin_file (fs example_world) = Some example_crowdin"
    and "crowdin_file (fs ?w2) = Some ?c2"
    and "example_crowdin ''files'' = Some (YSeq [])"
    and "?c2 ''files'' = Some (YSeq [root_entry])"
    and "\<forall>section. section \<noteq> ''files'' \<longrightarrow> example_crowdin section = ?c2 section"
    by (simp_all add: example_world_def example_crowdin_def save_crowdin_def)
  from update_crowdin_config_ignores_old_files [OF this] show ?thesis .
qed

section \<open>The mirror updater's commands\<close>

text \<open>
  Claim C2, at a package whose mirror exists. With \<open>/r/repos/napari\<close> present, the
  updater starts \<open>git fetch origin\<close> in the mirrors folder \<open>/r/repos\<close>, not in the
  package's mirror \<open>/r/repos/napari\<close>; only the checkout runs inside the mirror.
\<close>

theorem update_repo_fetch_in_repos_folder:
  "update_repo example_env ''napari'' ''https://example.com/napari'' ''v1.0'' example_world
   = Inr (example_world
            \<lparr>procs := [([''git'', ''fetch'', ''origin''], ''/r/repos''),
                       ([''git'', ''checkout'', ''v1.0''], ''/r/repos/napari'')]\<rparr>)"
  by (simp add: update_repo_def isdir_def popen_def example_simps Let_def)

section \<open>The catalog extractor's output\<close>

text \<open>
  Claim C4, at the package \<open>plugin-a\<close>. The configuration entry names the catalog with
  the hyphen replaced by an underscore; the extractor writes the catalog under the
  package name as it is, hyphen included.
\<close>

theorem catalog_output_keeps_hyphens:
  "catalog_output example_env ''plugin-a'' = ''/r/plugins/plugin-a/locale/plugin-a.pot''
   \<and> plugin_entry ''plugin-a''
       = YMap [(''source'', YStr ''/plugins/plugin_a/locale/plugin_a.pot''),
               (''translation'',
                  YStr ''/plugins/plugin_a/locale/%locale_with_underscore%/LC_MESSAGES/%file_name%.po'')]"
  by (simp add: example_simps plugin_entry_def py_replace_def)

text \<open>
  Claim C6, as the code has it. The extractor's working directory exists and the tool
  leaves a text in the catalog. Cut that text at the occurrences of the mirror's path
  followed by \<open>/\<close> that one scan from the left meets: pieces \<open>segs\<close>, each followed by
  that prefix and with no earlier start of it, and a remainder \<open>rest\<close> without it.
  Then the extractor succeeds and the catalog holds the pieces and the remainder with
  those occurrences deleted, so every file reference that starts with the prefix is
  left relative to the mirror. Nothing is said about further occurrences of the
  mirror's path in the result.
\<close>

theorem update_catalog_strips_mirror_prefix:
  assumes "dir_tree (fs w) (repo_root e) = Some t"
    and "texts (tool e (extract_args e w package_name) (repo_root e) (fs w))
           (catalog_output e package_name)
         = Some (concat (map (\<lambda>s. s @ mirror_dir e package_name @ ''/'') segs) @ rest)"
    and "\<forall>s\<in>set segs.
           \<not> str_contains (mirror_dir e package_name @ ''/'') (s @ mirror_dir e package_name)"
    and "\<not> str_contains (mirror_dir e package_name @ ''/'') rest"
  shows "catalog_after e package_name (update_catalog e package_name version w)
         = Some (concat segs @ rest)"
proof -
  let ?old = "mirror_dir e package_name @ ''/''"
  have "?old \<noteq> []" by simp
  moreover have "\<forall>s\<in>set segs. \<not> str_contains ?old (s @ butlast ?old)"
    using assms(3) by (simp add: butlast_append)
  ultimately have "str_replace ?old [] (concat (map (\<lambda>s. s @ ?old) segs) @ rest)
      = concat segs @ rest"
    using assms(4) by (rule str_replace_segments)
  then show ?thesis
    using assms(1,2)
    by (simp add: update_catalog_def popen_def read_text_def write_text_def
                  catalog_after_def py_replace_def)
qed

theorem update_catalog_strips_mirror_prefix_witness:
  "catalog_after example_env ''napari''
     (update_catalog example_env ''napari'' ''v1.0'' example_world)
   = Some (''#: napari/utils/misc.py:10'' @ [CHR 10]
           @ ''msgid '' @ [CHR 0x22] @ ''see /r/repos/napari'' @ [CHR 0x22] @ [CHR 10])"
proof -
  let ?rest = "''napari/utils/misc.py:10'' @ [CHR 10]
           @ ''msgid '' @ [CHR 0x22] @ ''see /r/repos/napari'' @ [CHR 0x22] @ [CHR 10]"
  have 1: "dir_tree (fs example_world) (repo_root example_env)
         = Some (Dnode [(''repos'', Dnode [(''napari'', Dnode [(''napari'', Dnode [])]),
                                            (''plugin-a'', Dnode [])])])"
    by (simp add: example_simps)
  have 2: "texts (tool example_env (extract_args example_env example_world ''napari'')
                  (repo_root example_env) (fs example_world))
             (catalog_output example_env ''napari'')
         = Some (concat (map (\<lambda>s. s @ mirror_dir example_env ''napari'' @ ''/'') [''#: ''])
                 @ ?rest)"
    by (simp add: example_simps)
  have 3: "\<forall>s\<in>set [''#: ''].
       \<not> str_contains (mirror_dir example_env ''napari'' @ ''/'')
           (s @ mirror_dir example_env ''napari'')"
    by (simp add: example_simps)
  have 4: "\<not> str_contains (mirror_dir example_env ''napari'' @ ''/'') ?rest"
    by (simp add: example_simps)
  from update_catalog_strips_mirror_prefix [OF 1 2 3 4, of "''v1.0''"]
  show ?thesis by simp
qed

text \<open>
  Claim C6 as stated fails when the mirror's path occurs without a following \<open>/\<close>: a
  message that mentions the mirror directory keeps the path in the finished catalog.
\<close>

theorem update_catalog_root_path_counterexample:
  "catalog_after example_env ''napari''
     (update_catalog example_env ''napari'' ''v1.0'' example_world)
   = Some (''#: napari/utils/misc.py:10'' @ [CHR 10]
           @ ''msgid '' @ [CHR 0x22] @ ''see /r/repos/napari'' @ [CHR 0x22] @ [CHR 10])
   \<and> str_contains (mirror_dir example_env ''napari'')
        (''#: napari/utils/misc.py:10'' @ [CHR 10]
         @ ''msgid '' @ [CHR 0x22] @ ''see /r/repos/napari'' @ [CHR 0x22] @ [CHR 10])"
  by (simp add: example_simps update_catalog_def popen_def read_text_def write_text_def
                catalog_after_def py_replace_def Let_def)

section \<open>The orchestrator\<close>

lemma select_packages_many: "2 \<le> length args \<Longrightarrow> select_packages data args = None"
  by (auto simp: select_packages_def)

lemma select_packages_one:
  "select_packages data [name]
   = (if map_of data name = None then Some [] else Some [name])"
  by (auto simp: select_packages_def dict_keys_def map_of_eq_None_iff)

text \<open>
  Claim C3, as the code has it. With two or more arguments, a repository map that loads
  and a configuration with a file-list section, the run first synchronizes the
  configuration and then exits with status 0; the configuration's file-list section is
  rewritten, and nothing else changes: no sub-process is started, nothing is echoed, no
  directory and no text file is touched.
\<close>

theorem main_many_arguments:
  assumes "2 \<le> length args"
    and "repo_map_file (fs w) = Some data" and "crowdin_file (fs w) = Some c"
    and "c ''files'' = Some old"
  shows "main e args w
         = (SysExit 0,
            w\<lparr>fs := (fs w)\<lparr>crowdin_file := Some (c(''files'' \<mapsto> YSeq (file_list data)))\<rparr>\<rparr>)
       \<and> exit_code (fst (main e args w)) = 0"
  using assms(2) update_crowdin_config_ok [OF assms(2-4), of e]
    select_packages_many [OF assms(1)]
  by (simp add: main_def load_repo_map_def save_crowdin_def exit_code_def)

theorem main_many_arguments_witness:
  "main example_env [''napari'', ''plugin-a''] example_world
   = (SysExit 0,
      example_world\<lparr>fs := (fs example_world)
         \<lparr>crowdin_file :=
            Some (example_crowdin(''files'' \<mapsto> YSeq (file_list example_map)))\<rparr>\<rparr>)
   \<and> exit_code (fst (main example_env [''napari'', ''plugin-a''] example_world)) = 0"
proof -
  have "2 \<le> length [''napari'', ''plugin-a'']"
    and "repo_map_file (fs example_world) = Some example_map"
    and "crowdin_file (fs example_world) = Some example_crowdin"
    and "example_crowdin ''files'' = Some (YSeq [])"
    by (simp_all add: example_world_def example_crowdin_def)
  from main_many_arguments [OF this] show ?thesis .
qed

text \<open>
  Claim C3 as stated fails: a run with two arguments exits with status 0 after it has
  replaced the empty file list of the configuration by the two entries of the map.
\<close>

theorem main_many_arguments_counterexample:
  "fst (main example_env [''napari'', ''plugin-a''] example_world) = SysExit 0
   \<and> files_section example_world = Some (YSeq [])
   \<and> files_section (snd (main example_env [''napari'', ''plugin-a''] example_world))
       = Some (YSeq [root_entry, plugin_entry ''plugin-a''])"
  by (simp add: main_def load_repo_map_def update_crowdin_config_def load_crowdin_def
                save_crowdin_def select_packages_def files_section_def
                example_world_def example_crowdin_def example_map_def
                file_list_def dict_keys_def packages_step_def)

text \<open>
  Claim C9. With exactly one argument, a repository map that loads and a configuration
  with a file-list section, the run synchronizes the configuration once (\<open>w1\<close> is the
  world with the rewritten file list). If the name is not a key of the map, the run
  ends there with the final notice: no mirror updater and no catalog extractor runs. If
  the name is a key, the run echoes the notice for that package and runs the mirror
  updater and then the catalog extractor once each, for that package with its own URL
  and version, and nothing for any other package.
\<close>

theorem main_one_argument:
  assumes "repo_map_file (fs w) = Some data" and "crowdin_file (fs w) = Some c"
    and "c ''files'' = Some old"
    and "w1 = w\<lparr>fs := (fs w)\<lparr>crowdin_file := Some (c(''files'' \<mapsto> YSeq (file_list data)))\<rparr>\<rparr>"
  shows "(map_of data name = None \<longrightarrow> main e [name] w = (Done, finish e w1))
       \<and> (\<forall>entry. map_of data name = Some entry \<longrightarrow>
            main e [name] w
            = (case update_repo e name (pkg_url entry) (current_version_tag entry)
                      (echo ''cyan'' (updating_notice name) w1) of
                 Inl (err, w2) \<Rightarrow> (Raised err, w2)
               | Inr w2 \<Rightarrow>
                   (case update_catalog e name (current_version_tag entry) w2 of
                      Inl (err, w3) \<Rightarrow> (Raised err, w3)
                    | Inr w3 \<Rightarrow> (Done, finish e w3))))"
proof -
  have sync: "update_crowdin_config e w = Inr w1"
    using update_crowdin_config_ok [OF assms(1-3), of e] assms(4)
    by (simp add: save_crowdin_def)
  have load: "load_repo_map e w = Inr data"
    using assms(1) by (simp add: load_repo_map_def)
  show ?thesis
    by (auto simp: main_def sync load select_packages_one process_package_def Let_def
             split: sum.splits prod.splits)
qed

theorem main_one_argument_witness:
  "main example_env [''zzz''] example_world
   = (Done,
      finish example_env
        (example_world\<lparr>fs := (fs example_world)
           \<lparr>crowdin_file :=
              Some (example_crowdin(''files'' \<mapsto> YSeq (file_list example_map)))\<rparr>\<rparr>))
   \<and> main example_env [''plugin-a''] example_world
     = (case update_repo example_env ''plugin-a'' ''https://example.com/plugin-a'' ''main''
               (echo ''cyan'' (updating_notice ''plugin-a'')
                  (example_world\<lparr>fs := (fs example_world)
                     \<lparr>crowdin_file :=
                        Some (example_crowdin(''files'' \<mapsto> YSeq (file_list example_map)))\<rparr>\<rparr>)) of
          Inl (err, w2) \<Rightarrow> (Raised err, w2)
        | Inr w2 \<Rightarrow>
            (case update_catalog example_env ''plugin-a'' ''main'' w2 of
               Inl (err, w3) \<Rightarrow> (Raised err, w3)
             | Inr w3 \<Rightarrow> (Done, finish example_env w3)))"
proof -
  let ?w1 = "example_world\<lparr>fs := (fs example_world)
     \<lparr>crowdin_file := Some (example_crowdin(''files'' \<mapsto> YSeq (file_list example_map)))\<rparr>\<rparr>"
  have h: "repo_map_file (fs example_world) = Some example_map"
    "crowdin_file (fs example_world) = Some example_crowdin"
    "example_crowdin ''files'' = Some (YSeq [])"
    "?w1 = ?w1"
    by (simp_all add: example_world_def example_crowdin_def)
  have unknown: "map_of example_map ''zzz'' = None"
    and known: "map_of example_map ''plugin-a''
       = Some \<lparr>pkg_url = ''https://example.com/plugin-a'', current_version_tag = ''main''\<rparr>"
    by (simp_all add: example_map_def)
  show ?thesis
    using main_one_argument [OF h, of "''zzz''" example_env]
      main_one_argument [OF h, of "''plugin-a''" example_env] unknown known
    by (simp cong: sum.case_cong)
qed

section \<open>The locale-validation hook\<close>

text \<open>
  Claim C5, as the code has it. The hook exits with a non-zero status exactly when one
  of five conditions holds: the first form has no hyphen; the library does not parse
  the second form; the parsed language and territory, joined by an underscore, are not
  the second form (a parsed locale without a territory counts as such); the first form
  has an underscore; the second form has a hyphen. It prints a diagnostic exactly when
  it exits with a non-zero status. Only the second form is checked as a locale
  identifier, and the two forms are not compared with each other.
\<close>

theorem pre_gen_project_fails_iff:
  "(snd (pre_gen_project locale_parse locale locale_underscore) \<noteq> 0
    \<longleftrightarrow> (\<not> str_contains ''-'' locale
         \<or> locale_parse locale_underscore = None
         \<or> (case locale_parse locale_underscore of
               None \<Rightarrow> False
             | Some parsed \<Rightarrow>
                 (case territory parsed of
                    None \<Rightarrow> True
                  | Some terr \<Rightarrow> language parsed @ ''_'' @ terr \<noteq> locale_underscore))
         \<or> str_contains ''_'' locale
         \<or> str_contains ''-'' locale_underscore))
   \<and> (fst (pre_gen_project locale_parse locale locale_underscore) \<noteq> []
        \<longleftrightarrow> snd (pre_gen_project locale_parse locale locale_underscore) \<noteq> 0)"
  by (simp add: pre_gen_project_def check_parsed_def split: option.splits)

theorem pre_gen_project_fails_iff_witness:
  "pre_gen_project example_locale_parse ''es-ES'' ''es_ES'' = ([], 0)
   \<and> snd (pre_gen_project example_locale_parse ''es_ES'' ''es_ES'') \<noteq> 0
   \<and> fst (pre_gen_project example_locale_parse ''es_ES'' ''es_ES'') \<noteq> []"
proof -
  have "pre_gen_project example_locale_parse ''es-ES'' ''es_ES'' = ([], 0)"
    using pre_gen_project_fails_iff [of example_locale_parse "''es-ES''" "''es_ES''"]
    by (auto simp: example_locale_parse_def prod_eq_iff)
  moreover have "snd (pre_gen_project example_locale_parse ''es_ES'' ''es_ES'') \<noteq> 0
   \<and> fst (pre_gen_project example_locale_parse ''es_ES'' ''es_ES'') \<noteq> []"
    using pre_gen_project_fails_iff [of example_locale_parse "''es_ES''" "''es_ES''"]
    by simp
  ultimately show ?thesis by simp
qed

text \<open>
  Claim C5 as stated fails where it says the two forms are checked against each other:
  the hook accepts the Spanish hyphenated form together with the French underscore
  form.
\<close>

theorem pre_gen_project_forms_counterexample:
  "pre_gen_project example_locale_parse ''es-ES'' ''fr_FR'' = ([], 0)
   \<and> py_replace ''-'' ''_'' ''es-ES'' \<noteq> ''fr_FR''"
  by (simp add: pre_gen_project_def check_parsed_def example_locale_parse_def py_replace_def)

end
